theory Spec2Isabelle
  imports Complex_Main
begin

section \<open>JavaScript numbers\<close>

text \<open>
  The avatar's frame callback computes with JavaScript numbers. A number is modelled as a
  real, one of the two infinities, or NaN: the special values follow IEEE 754 as JavaScript
  exposes it, finite arithmetic is exact (no rounding, no overflow) and zero carries no sign.
\<close>

datatype number = Num real | PosInfinity | NegInfinity | NaN

instantiation number :: "{plus, minus, uminus, times, inverse}"
begin

fun uminus_number :: "number \<Rightarrow> number" where
  "- Num a = Num (- a)"
| "- PosInfinity = NegInfinity"
| "- NegInfinity = PosInfinity"
| "- NaN = NaN"

fun plus_number :: "number \<Rightarrow> number \<Rightarrow> number" where
  "NaN + _ = NaN"
| "_ + NaN = NaN"
| "Num a + Num b = Num (a + b)"
| "PosInfinity + NegInfinity = NaN"
| "NegInfinity + PosInfinity = NaN"
| "PosInfinity + _ = PosInfinity"
| "_ + PosInfinity = PosInfinity"
| "NegInfinity + _ = NegInfinity"
| "_ + NegInfinity = NegInfinity"

definition minus_number :: "number \<Rightarrow> number \<Rightarrow> number" where
  "a - b = a + (- b)" for a b :: number

fun times_number :: "number \<Rightarrow> number \<Rightarrow> number" where
  "NaN * _ = NaN"
| "_ * NaN = NaN"
| "Num a * Num b = Num (a * b)"
| "Num a * PosInfinity = (if a = 0 then NaN else if 0 < a then PosInfinity else NegInfinity)"
| "Num a * NegInfinity = (if a = 0 then NaN else if 0 < a then NegInfinity else PosInfinity)"
| "PosInfinity * Num b = (if b = 0 then NaN else if 0 < b then PosInfinity else NegInfinity)"
| "NegInfinity * Num b = (if b = 0 then NaN else if 0 < b then NegInfinity else PosInfinity)"
| "PosInfinity * PosInfinity = PosInfinity"
| "NegInfinity * NegInfinity = PosInfinity"
| "PosInfinity * NegInfinity = NegInfinity"
| "NegInfinity * PosInfinity = NegInfinity"

fun divide_number :: "number \<Rightarrow> number \<Rightarrow> number" where
  "NaN div _ = NaN"
| "_ div NaN = NaN"
| "Num a div Num b =
     (if b = 0 then (if a = 0 then NaN else if 0 < a then PosInfinity else NegInfinity)
      else Num (a / b))"
| "Num a div PosInfinity = Num 0"
| "Num a div NegInfinity = Num 0"
| "PosInfinity div Num b = (if 0 \<le> b then PosInfinity else NegInfinity)"
| "NegInfinity div Num b = (if 0 \<le> b then NegInfinity else PosInfinity)"
| "PosInfinity div PosInfinity = NaN"
| "PosInfinity div NegInfinity = NaN"
| "NegInfinity div PosInfinity = NaN"
| "NegInfinity div NegInfinity = NaN"

definition inverse_number :: "number \<Rightarrow> number" where
  "inverse a = Num 1 div a" for a :: number

instance ..

end

text \<open>The comparison \<open>a > b\<close>: false as soon as one side is NaN.\<close>

fun gt :: "number \<Rightarrow> number \<Rightarrow> bool" where
  "gt NaN _ = False"
| "gt _ NaN = False"
| "gt (Num a) (Num b) = (b < a)"
| "gt PosInfinity PosInfinity = False"
| "gt PosInfinity _ = True"
| "gt _ PosInfinity = False"
| "gt NegInfinity _ = False"
| "gt _ NegInfinity = True"

text \<open>\<open>a >= b\<close>, used to state properties; the callback itself only compares with \<open>>\<close>.\<close>

fun ge :: "number \<Rightarrow> number \<Rightarrow> bool" where
  "ge NaN _ = False"
| "ge _ NaN = False"
| "ge (Num a) (Num b) = (b \<le> a)"
| "ge PosInfinity _ = True"
| "ge _ NegInfinity = True"
| "ge _ PosInfinity = False"
| "ge NegInfinity _ = False"

fun isFinite :: "number \<Rightarrow> bool" where
  "isFinite (Num a) = True"
| "isFinite _ = False"

fun isNaN :: "number \<Rightarrow> bool" where
  "isNaN NaN = True"
| "isNaN _ = False"

text \<open>\<open>Math.min\<close> and \<open>Math.max\<close> return NaN when an argument is NaN.\<close>

fun Math_min :: "number \<Rightarrow> number \<Rightarrow> number" where
  "Math_min NaN _ = NaN"
| "Math_min _ NaN = NaN"
| "Math_min a b = (if gt a b then b else a)"

fun Math_max :: "number \<Rightarrow> number \<Rightarrow> number" where
  "Math_max NaN _ = NaN"
| "Math_max _ NaN = NaN"
| "Math_max a b = (if gt a b then a else b)"

fun Math_abs :: "number \<Rightarrow> number" where
  "Math_abs (Num a) = Num \<bar>a\<bar>"
| "Math_abs PosInfinity = PosInfinity"
| "Math_abs NegInfinity = PosInfinity"
| "Math_abs NaN = NaN"

fun Math_sqrt :: "number \<Rightarrow> number" where
  "Math_sqrt (Num a) = (if a < 0 then NaN else Num (sqrt a))"
| "Math_sqrt PosInfinity = PosInfinity"
| "Math_sqrt NegInfinity = NaN"
| "Math_sqrt NaN = NaN"

fun Math_sin :: "number \<Rightarrow> number" where
  "Math_sin (Num a) = Num (sin a)"
| "Math_sin _ = NaN"

fun Math_cos :: "number \<Rightarrow> number" where
  "Math_cos (Num a) = Num (cos a)"
| "Math_cos _ = NaN"

fun Math_acos :: "number \<Rightarrow> number" where
  "Math_acos (Num a) = (if - 1 \<le> a \<and> a \<le> 1 then Num (arccos a) else NaN)"
| "Math_acos _ = NaN"

fun Math_atan2 :: "number \<Rightarrow> number \<Rightarrow> number" where
  "Math_atan2 NaN _ = NaN"
| "Math_atan2 _ NaN = NaN"
| "Math_atan2 (Num y) (Num x) =
     Num (if 0 < x then arctan (y / x)
          else if x < 0 then (if 0 \<le> y then arctan (y / x) + pi else arctan (y / x) - pi)
          else if 0 < y then pi / 2 else if y < 0 then - (pi / 2) else 0)"
| "Math_atan2 (Num y) PosInfinity = Num 0"
| "Math_atan2 (Num y) NegInfinity = Num (if 0 \<le> y then pi else - pi)"
| "Math_atan2 PosInfinity (Num x) = Num (pi / 2)"
| "Math_atan2 NegInfinity (Num x) = Num (- (pi / 2))"
| "Math_atan2 PosInfinity PosInfinity = Num (pi / 4)"
| "Math_atan2 PosInfinity NegInfinity = Num (3 * pi / 4)"
| "Math_atan2 NegInfinity PosInfinity = Num (- (pi / 4))"
| "Math_atan2 NegInfinity NegInfinity = Num (- (3 * pi / 4))"

text \<open>\<open>x ** 2\<close>.\<close>

definition sq :: "number \<Rightarrow> number" where
  "sq a = a * a"

section \<open>The three.js values the callback uses\<close>

datatype Vector3 = Vector3 (vx: number) (vy: number) (vz: number)

text \<open>\<open>MathUtils.lerp(x, y, t)\<close> of three.js is \<open>(1 - t) * x + t * y\<close>.\<close>

definition lerp :: "number \<Rightarrow> number \<Rightarrow> number \<Rightarrow> number" where
  "lerp a b t = (Num 1 - t) * a + t * b"

text \<open>
  \<open>Vector3.lerp(v, alpha)\<close> adds \<open>(v - this) * alpha\<close> to each coordinate; \<open>add\<close>,
  \<open>subVectors\<close> and \<open>length\<close> are the usual ones.
\<close>

definition lerpV :: "Vector3 \<Rightarrow> Vector3 \<Rightarrow> number \<Rightarrow> Vector3" where
  "lerpV this v alpha =
     Vector3 (vx this + (vx v - vx this) * alpha)
             (vy this + (vy v - vy this) * alpha)
             (vz this + (vz v - vz this) * alpha)"

definition addV :: "Vector3 \<Rightarrow> Vector3 \<Rightarrow> Vector3" where
  "addV this v = Vector3 (vx this + vx v) (vy this + vy v) (vz this + vz v)"

definition subVectors :: "Vector3 \<Rightarrow> Vector3 \<Rightarrow> Vector3" where
  "subVectors a b = Vector3 (vx a - vx b) (vy a - vy b) (vz a - vz b)"

definition lengthV :: "Vector3 \<Rightarrow> number" where
  "lengthV v = Math_sqrt (vx v * vx v + vy v * vy v + vz v * vz v)"

definition distanceTo :: "Vector3 \<Rightarrow> Vector3 \<Rightarrow> number" where
  "distanceTo a b = lengthV (subVectors a b)"

definition finiteV :: "Vector3 \<Rightarrow> bool" where
  "finiteV v = (isFinite (vx v) \<and> isFinite (vy v) \<and> isFinite (vz v))"

text \<open>No coordinate is NaN.\<close>

definition definedV :: "Vector3 \<Rightarrow> bool" where
  "definedV v = (\<not> isNaN (vx v) \<and> \<not> isNaN (vy v) \<and> \<not> isNaN (vz v))"

section \<open>The avatar's state and one frame's inputs\<close>

datatype AvatarState = IDLE | WRITING | THINKING | GRABBING | WALKING

text \<open>
  What the component keeps between frames: its own refs (\<open>bodyTargetX\<close>, \<open>bodyPosition\<close>,
  \<open>headLookAt\<close>, \<open>currentHandTarget\<close>, \<open>bodyRotationY\<close>, \<open>bodyLean\<close>) and the fields of the
  scene objects the callback writes: the position of the root group, the height and
  rotation of the spine group, the rotation of the forearm group.
\<close>

record animator =
  bodyTargetX :: number
  bodyPosition :: Vector3
  groupPosition :: Vector3
  spinePositionY :: number
  headLookAt :: Vector3
  currentHandTarget :: Vector3
  bodyRotationY :: number
  bodyLean :: Vector3
  spineRotation :: Vector3
  foreArmRotation :: Vector3

text \<open>
  What one call of the callback reads: the three props, the clock, whether the four refs
  the guard tests are attached, and the two scene-graph transforms of three.js.
  \<open>spineRef.current.localToWorld\<close> is a function of what the scene holds when it is
  called (the position of the root group, the height and the rotation of the spine
  group) and of where the component is mounted; \<open>groupRef.current.worldToLocal\<close> is a
  function of the position of the root group. Both are parameters here, given the
  fields they read: every result below holds for all of them. The writes that only
  orient a mesh (the head's \<open>lookAt\<close>, the aim of the upper arm, the hand's rotation)
  feed nothing back into the callback and are left out.
\<close>

record frame =
  refsAttached :: bool
  time :: number
  delta :: number
  targetPosition :: "Vector3 option"
  state :: AvatarState
  lookAtTarget :: "Vector3 option"
  spineLocalToWorld :: "Vector3 \<Rightarrow> number \<Rightarrow> Vector3 \<Rightarrow> Vector3 \<Rightarrow> Vector3"
  groupWorldToLocal :: "Vector3 \<Rightarrow> Vector3 \<Rightarrow> Vector3"

definition initial :: animator where
  "initial =
     \<lparr> bodyTargetX = Num 0,
       bodyPosition = Vector3 (Num 0) (Num 0) (Num 0),
       groupPosition = Vector3 (Num 0) (Num 0) (Num 0),
       spinePositionY = Num 1,
       headLookAt = Vector3 (Num 0) (Num 1.5) (Num 5),
       currentHandTarget = Vector3 (Num 1) (Num 1.5) (Num 0),
       bodyRotationY = Num 0,
       bodyLean = Vector3 (Num 0) (Num 0) (Num 0),
       spineRotation = Vector3 (Num 0) (Num 0) (Num 0),
       foreArmRotation = Vector3 (Num 0) (Num 0) (Num 0) \<rparr>"

section \<open>The frame callback\<close>

subsection \<open>1. Locomotion and positioning\<close>

text \<open>The value of \<open>bodyTargetX\<close> before the clamp to the stage bounds.\<close>

definition stepTarget :: "frame \<Rightarrow> number \<Rightarrow> number" where
  "stepTarget f b =
     (case targetPosition f of
        Some p \<Rightarrow>
          (if state f = WRITING then
             (let idealX = vx p - Num 0.4;
                  dist = Math_abs (idealX - b)
              in if gt dist (Num 0.8) then idealX else b)
           else if state f = GRABBING then vx p - Num 0.4
           else if state f = THINKING then Num 0
           else b)
      | None \<Rightarrow>
          (case lookAtTarget f of
             Some l \<Rightarrow> (if state f = IDLE then vx l * Num 0.3 else b)
           | None \<Rightarrow> b))"

definition clampStage :: "number \<Rightarrow> number" where
  "clampStage b = Math_max (Num (- 3.2)) (Math_min (Num 3.2) b)"

definition locomotion :: "frame \<Rightarrow> number \<Rightarrow> animator \<Rightarrow> animator" where
  "locomotion f dt s =
     (let target = clampStage (stepTarget f (bodyTargetX s));
          bodyLerpSpeed = (if state f = WRITING then Num 4 else Num 2);
          px = lerp (vx (bodyPosition s)) target (dt * bodyLerpSpeed);
          spineY =
            (if state f \<noteq> WRITING then
               (let speed = Math_abs (px - target) * Num 10;
                    walkBob = Math_sin (time f * Num 12) * Math_min speed (Num 0.05)
                in Num 1 + Math_sin (time f * Num 1.5) * Num 0.005 + walkBob)
             else lerp (spinePositionY s) (Num 1) (dt * Num 10))
      in s\<lparr> bodyTargetX := target,
            bodyPosition := Vector3 px (vy (bodyPosition s)) (vz (bodyPosition s)),
            groupPosition := Vector3 px (vy (groupPosition s)) (vz (groupPosition s)),
            spinePositionY := spineY \<rparr>)"

subsection \<open>2. Head tracking\<close>

definition headTracking :: "frame \<Rightarrow> number \<Rightarrow> animator \<Rightarrow> animator" where
  "headTracking f dt s =
     (let targetLook0 =
            (case lookAtTarget f of
               Some l \<Rightarrow> l
             | None \<Rightarrow> Vector3 (Num 0) (Num 1.5) (Num 10));
          targetLook =
            (if state f = THINKING then Vector3 (Num 2) (Num 4) (Num 5) else targetLook0)
      in s\<lparr> headLookAt :=
              lerpV (headLookAt s) targetLook
                (dt * (if state f = WRITING then Num 20 else Num 5)) \<rparr>)"

subsection \<open>3. Inverse kinematics of the right arm\<close>

definition upperArmLen :: number where
  "upperArmLen = Num 0.7"

definition lowerArmLen :: number where
  "lowerArmLen = Num 0.75"

definition maxReach :: number where
  "maxReach = upperArmLen + lowerArmLen - Num 0.01"

definition shoulderOffsetLocal :: Vector3 where
  "shoulderOffsetLocal = Vector3 (Num 0.28) (Num 0.5) (Num 0)"

text \<open>The point the hand is sent to, given the root position of this frame.\<close>

definition activePos :: "frame \<Rightarrow> Vector3 \<Rightarrow> Vector3" where
  "activePos f rootPos =
     (let restPos = addV (Vector3 (Num 0.35) (Num 0.9) (Num 0.3)) rootPos;
          activePos0 = (case targetPosition f of Some p \<Rightarrow> p | None \<Rightarrow> restPos)
      in if state f = THINKING then addV rootPos (Vector3 (Num 0.15) (Num 1.6) (Num 0.35))
         else activePos0)"

definition handLerpSpeed :: "AvatarState \<Rightarrow> number" where
  "handLerpSpeed st = (if st = WRITING then Num 50 else if st = GRABBING then Num 20 else Num 6)"

text \<open>
  The world position of the shoulder, from the scene as the state holds it, and the
  distance from it to the smoothed hand target.
\<close>

definition shoulderPos :: "frame \<Rightarrow> animator \<Rightarrow> Vector3" where
  "shoulderPos f s =
     spineLocalToWorld f (groupPosition s) (spinePositionY s) (spineRotation s)
       shoulderOffsetLocal"

definition shoulderDist :: "frame \<Rightarrow> animator \<Rightarrow> Vector3 \<Rightarrow> number" where
  "shoulderDist f s hand =
     (let toTarget = subVectors hand (shoulderPos f s)
      in lengthV toTarget)"

definition cosElbow :: "number \<Rightarrow> number" where
  "cosElbow d =
     (sq upperArmLen + sq lowerArmLen - sq (Math_min d maxReach))
       / (Num 2 * upperArmLen * lowerArmLen)"

definition elbowAngle :: "number \<Rightarrow> number" where
  "elbowAngle d = Math_acos (Math_max (Num (- 1)) (Math_min (Num 1) (cosElbow d)))"

definition armIK :: "frame \<Rightarrow> number \<Rightarrow> animator \<Rightarrow> animator" where
  "armIK f dt s =
     (let hand = lerpV (currentHandTarget s) (activePos f (groupPosition s))
                   (dt * handLerpSpeed (state f));
          dist = shoulderDist f s hand
      in s\<lparr> currentHandTarget := hand,
            foreArmRotation := Vector3 (elbowAngle dist) (Num 0) (Num 0) \<rparr>)"

subsection \<open>4. Body mechanics (leaning)\<close>

definition focusPoint :: "frame \<Rightarrow> Vector3 option" where
  "focusPoint f = (case targetPosition f of Some p \<Rightarrow> Some p | None \<Rightarrow> lookAtTarget f)"

definition leaning :: "frame \<Rightarrow> number \<Rightarrow> animator \<Rightarrow> animator" where
  "leaning f dt s =
     (case focusPoint f of
        Some p \<Rightarrow>
          (let localLook = groupWorldToLocal f (groupPosition s) p;
               targetYRot = Math_atan2 (vx localLook) (vz localLook);
               rotationSpeed = (if state f = WRITING then Num 1 else Num 4);
               rotY = lerp (bodyRotationY s) (targetYRot * Num 0.7) (dt * rotationSpeed);
               dist = shoulderDist f s (currentHandTarget s);
               targetLeanX =
                 (if state f = GRABBING \<or> state f = WRITING
                  then (vy localLook - Num 1) * Num 0.1 else Num 0);
               targetLeanZ =
                 (if state f = GRABBING \<or> state f = WRITING
                  then (let reachExtension = Math_min (dist / maxReach) (Num 1)
                        in - vx localLook * (if state f = WRITING then Num 0.05 else Num 0.2)
                             * reachExtension)
                  else Num 0);
               leanX = lerp (vx (bodyLean s)) targetLeanX (dt * Num 5);
               leanZ = lerp (vz (bodyLean s)) targetLeanZ (dt * Num 5)
           in s\<lparr> bodyRotationY := rotY,
                 bodyLean := Vector3 leanX (vy (bodyLean s)) leanZ,
                 spineRotation := Vector3 leanX rotY leanZ \<rparr>)
      | None \<Rightarrow>
          (let rotY = lerp (bodyRotationY s) (Num 0) (dt * Num 3)
           in s\<lparr> bodyRotationY := rotY,
                 bodyLean := Vector3 (Num 0) (Num 0) (Num 0),
                 spineRotation := Vector3 (Num 0) rotY (Num 0) \<rparr>))"

subsection \<open>The callback and a run of frames\<close>

text \<open>
  The callback returns at once while one of the four refs is unattached; otherwise it
  clamps the frame delta and runs the four stages in order.
\<close>

definition frameBody :: "frame \<Rightarrow> number \<Rightarrow> animator \<Rightarrow> animator" where
  "frameBody f dt s = leaning f dt (armIK f dt (headTracking f dt (locomotion f dt s)))"

definition useFrame :: "frame \<Rightarrow> animator \<Rightarrow> animator" where
  "useFrame f s =
     (if \<not> refsAttached f then s
      else (let dt = Math_min (delta f) (Num 0.05) in frameBody f dt s))"

text \<open>The state an attached frame hands to the arm stage.\<close>

definition beforeIK :: "frame \<Rightarrow> animator \<Rightarrow> animator" where
  "beforeIK f s =
     (let dt = Math_min (delta f) (Num 0.05) in headTracking f dt (locomotion f dt s))"

fun run :: "frame list \<Rightarrow> animator \<Rightarrow> animator" where
  "run [] s = s"
| "run (f # fs) s = run fs (useFrame f s)"

text \<open>The chalk mesh in the right hand: \<open>visible={state === AvatarState.WRITING}\<close>.\<close>

definition chalkVisible :: "AvatarState \<Rightarrow> bool" where
  "chalkVisible st = (st = WRITING)"

section \<open>Example inputs and predicates used in the statements\<close>

text \<open>
  The two transforms for the component mounted under an untransformed parent, the root
  position finite. three.js turns the spine's Euler angles (order XYZ) into a quaternion,
  the quaternion into the rotation part of the spine's matrix, and places the spine at
  its height above the root; the root group is never rotated, so its inverse is the
  translation back. (The app mounts the component under a group lowered by 2, which
  lowers every world position by as much.)
\<close>

definition mountedLocalToWorld :: "Vector3 \<Rightarrow> number \<Rightarrow> Vector3 \<Rightarrow> Vector3 \<Rightarrow> Vector3" where
  "mountedLocalToWorld rootPos spineY rot v =
     (let c1 = Math_cos (vx rot / Num 2); s1 = Math_sin (vx rot / Num 2);
          c2 = Math_cos (vy rot / Num 2); s2 = Math_sin (vy rot / Num 2);
          c3 = Math_cos (vz rot / Num 2); s3 = Math_sin (vz rot / Num 2);
          qx = s1 * c2 * c3 + c1 * s2 * s3;
          qy = c1 * s2 * c3 - s1 * c2 * s3;
          qz = c1 * c2 * s3 + s1 * s2 * c3;
          qw = c1 * c2 * c3 - s1 * s2 * s3;
          x2 = qx + qx; y2 = qy + qy; z2 = qz + qz;
          xx = qx * x2; xy = qx * y2; xz = qx * z2;
          yy = qy * y2; yz = qy * z2; zz = qz * z2;
          wx = qw * x2; wy = qw * y2; wz = qw * z2
      in Vector3
           ((Num 1 - (yy + zz)) * vx v + (xy - wz) * vy v + (xz + wy) * vz v + vx rootPos)
           ((xy + wz) * vx v + (Num 1 - (xx + zz)) * vy v + (yz - wx) * vz v
              + (spineY + vy rootPos))
           ((xz - wy) * vx v + (yz + wx) * vy v + (Num 1 - (xx + yy)) * vz v + vz rootPos))"

definition mountedWorldToLocal :: "Vector3 \<Rightarrow> Vector3 \<Rightarrow> Vector3" where
  "mountedWorldToLocal rootPos v = subVectors v rootPos"

text \<open>A frame with all refs attached, the clock at 0, and these two transforms.\<close>

definition exampleFrame ::
  "AvatarState \<Rightarrow> Vector3 option \<Rightarrow> Vector3 option \<Rightarrow> number \<Rightarrow> frame" where
  "exampleFrame st tp la d =
     \<lparr> refsAttached = True, time = Num 0, delta = d, targetPosition = tp, state = st,
       lookAtTarget = la,
       spineLocalToWorld = mountedLocalToWorld,
       groupWorldToLocal = mountedWorldToLocal \<rparr>"

text \<open>
  The deadzone test subtracts twice and compares with 0.8. The model subtracts exactly
  where the callback rounds each difference to the nearest double. With the body target
  on the stage, a hand target within 1024 of the origin lets the two roundings move the
  computed distance by less than \<open>2 * 10\<^sup>-\<^sup>1\<^sup>3\<close>, and a hand target farther away puts
  the distance above 1000. The statements about the deadzone keep the exact distance
  \<open>10\<^sup>-\<^sup>9\<close> away from 0.8: the branch they describe is then the one the callback takes.
\<close>

definition deadzoneMargin :: real where
  "deadzoneMargin = 1 / 10 ^ 9"

text \<open>Within the stage bounds (false for NaN).\<close>

definition inStage :: "number \<Rightarrow> bool" where
  "inStage b = (ge b (Num (- 3.2)) \<and> ge (Num 3.2) b)"

text \<open>The x coordinates of the targets a frame supplies are not NaN.\<close>

definition xDefined :: "frame \<Rightarrow> bool" where
  "xDefined f =
     ((case targetPosition f of Some p \<Rightarrow> \<not> isNaN (vx p) | None \<Rightarrow> True) \<and>
      (case lookAtTarget f of Some l \<Rightarrow> \<not> isNaN (vx l) | None \<Rightarrow> True))"

section \<open>Auxiliary facts\<close>

subsection \<open>Numbers\<close>

lemma add_NaN [simp]: "a + NaN = NaN"
  by (cases a) simp_all

lemma mul_NaN [simp]: "a * NaN = NaN"
  by (cases a) simp_all

lemma Math_min_ge: "ge d m \<Longrightarrow> Math_min d m = m"
  by (cases d; cases m) auto

lemma Math_min_idem: "Math_min (Math_min a b) b = Math_min a b"
  by (cases a; cases b) auto

lemma Math_min_not_gt: "\<not> gt (Math_min a b) b"
  by (cases a; cases b) auto

lemma ge_not_gt: "ge a b \<Longrightarrow> \<not> gt b a"
  by (cases a; cases b) auto

lemma finite_notNaN: "isFinite a \<Longrightarrow> \<not> isNaN a"
  by (cases a) auto

lemma ge_margin_not_gt: "ge (Num (c - m)) d \<Longrightarrow> 0 \<le> m \<Longrightarrow> \<not> gt d (Num c)"
  by (cases d) auto

lemma gt_margin_gt: "gt d (Num (c + m)) \<Longrightarrow> 0 \<le> m \<Longrightarrow> gt d (Num c)"
  by (cases d) auto

lemma deadzoneMargin_nonneg: "0 \<le> deadzoneMargin"
  by (simp add: deadzoneMargin_def)

lemma sub_defined: "isFinite a \<Longrightarrow> \<not> isNaN b \<Longrightarrow> \<not> isNaN (a - b)"
  by (cases a; cases b) (auto simp: minus_number_def)

lemma sub_notNaN: "\<not> isNaN a \<Longrightarrow> \<not> isNaN (a - Num c)"
  by (cases a) (auto simp: minus_number_def)

lemma mul_notNaN: "\<not> isNaN a \<Longrightarrow> c \<noteq> 0 \<Longrightarrow> \<not> isNaN (a * Num c)"
  by (cases a) auto

lemma squares_not_neg: "\<not> (a * a + b * b + c * c < (0::real))"
  by (simp add: not_less add_nonneg_nonneg)

lemma lengthV_x: "lengthV (Vector3 (Num a) (Num 0) (Num 0)) = Num \<bar>a\<bar>"
  by (simp add: lengthV_def)

lemma lengthV_finite: "finiteV v \<Longrightarrow> isFinite (lengthV v)"
  by (cases v) (auto simp: finiteV_def lengthV_def squares_not_neg elim!: isFinite.elims)

lemma subVectors_finite: "finiteV a \<Longrightarrow> finiteV b \<Longrightarrow> finiteV (subVectors a b)"
  by (cases a; cases b)
     (auto simp: finiteV_def subVectors_def minus_number_def elim!: isFinite.elims)

lemma subVectors_defined: "finiteV a \<Longrightarrow> definedV b \<Longrightarrow> definedV (subVectors a b)"
  by (simp add: finiteV_def definedV_def subVectors_def sub_defined)

lemma square_sum_defined:
  assumes "\<not> isNaN a" "\<not> isNaN b" "\<not> isNaN c"
  shows "\<not> isNaN (Math_sqrt (a * a + b * b + c * c))"
proof -
  have sq: "(\<exists>r. 0 \<le> r \<and> x * x = Num r) \<or> x * x = PosInfinity" if "\<not> isNaN x" for x
    using that by (cases x) auto
  have ad: "(\<exists>r. 0 \<le> r \<and> x + y = Num r) \<or> x + y = PosInfinity"
    if "(\<exists>r. 0 \<le> r \<and> x = Num r) \<or> x = PosInfinity"
      and "(\<exists>r. 0 \<le> r \<and> y = Num r) \<or> y = PosInfinity" for x y
    using that by auto
  have "(\<exists>r. 0 \<le> r \<and> a * a + b * b + c * c = Num r) \<or> a * a + b * b + c * c = PosInfinity"
    by (intro ad sq assms)
  then show ?thesis
    by auto
qed

lemma lengthV_defined: "definedV v \<Longrightarrow> \<not> isNaN (lengthV v)"
  by (simp add: definedV_def lengthV_def square_sum_defined)

text \<open>A smoothing step with a factor in \<open>[0, 1]\<close> does not move away from its target.\<close>

lemma lerp_step_contracts:
  fixes a b t :: real
  assumes "0 \<le> t" "t \<le> 1"
  shows "\<bar>(a + (b - a) * t) - b\<bar> \<le> \<bar>a - b\<bar>"
proof -
  have "(a + (b - a) * t) - b = (a - b) * (1 - t)"
    by (simp add: algebra_simps)
  moreover have "\<bar>(a - b) * (1 - t)\<bar> \<le> \<bar>a - b\<bar> * 1"
    unfolding abs_mult using assms by (intro mult_left_mono) auto
  ultimately show ?thesis
    by simp
qed

text \<open>
  With the frame delta clamped to 0.05, the hand's smoothing factor stays within 1 in
  every state but \<open>WRITING\<close>, where it reaches 2.5.
\<close>

lemma hand_factor_at_clamp:
  "Num 0.05 * handLerpSpeed st =
     (if st = WRITING then Num 2.5 else if st = GRABBING then Num 1 else Num 0.3)"
  by (simp add: handLerpSpeed_def)

subsection \<open>The stage bounds\<close>

lemma clampStage_zero: "clampStage (Num 0) = Num 0"
  by (simp add: clampStage_def)

lemma clampStage_id: "inStage b \<Longrightarrow> clampStage b = b"
  by (cases b) (auto simp: clampStage_def inStage_def)

lemma clampStage_inStage: "\<not> isNaN b \<Longrightarrow> inStage (clampStage b)"
  by (cases b) (auto simp: clampStage_def inStage_def)

lemma inStage_notNaN: "inStage b \<Longrightarrow> \<not> isNaN b"
  by (cases b) (auto simp: inStage_def)

lemma stepTarget_notNaN: "xDefined f \<Longrightarrow> \<not> isNaN b \<Longrightarrow> \<not> isNaN (stepTarget f b)"
  by (auto simp: stepTarget_def xDefined_def Let_def sub_notNaN mul_notNaN
      split: option.splits)

subsection \<open>The elbow\<close>

lemma maxReach_val: "maxReach = Num 1.44"
  by (simp add: maxReach_def upperArmLen_def lowerArmLen_def minus_number_def)

lemma cosElbow_far: "ge d maxReach \<Longrightarrow> cosElbow d = Num (- 10211 / 10500)"
  by (simp add: cosElbow_def Math_min_ge)
     (simp add: maxReach_val upperArmLen_def lowerArmLen_def sq_def minus_number_def)

lemma elbow_far: "ge d maxReach \<Longrightarrow> elbowAngle d = Num (arccos (- 10211 / 10500))"
  by (simp add: elbowAngle_def cosElbow_far)

lemma far_angle_bounds:
  "pi / 2 \<le> arccos (- 10211 / 10500)" "arccos (- 10211 / 10500) < pi"
proof -
  have m: "arccos (- (10211 / 10500)) = pi - arccos (10211 / 10500 :: real)"
    by (rule arccos_minus) simp_all
  have "arccos (10211 / 10500 :: real) \<le> pi / 2"
    by (rule arccos_le_pi2) simp_all
  then show "pi / 2 \<le> arccos (- 10211 / 10500)"
    using m by simp
  have "0 < arccos (10211 / 10500 :: real)"
    using arccos_lt_bounded[of "10211 / 10500"] by simp
  then show "arccos (- 10211 / 10500) < pi"
    using m by simp
qed

lemma far_angle_not_zero: "Num (arccos (- 10211 / 10500)) \<noteq> Num 0"
proof -
  have "0 < arccos (- 10211 / 10500 :: real)"
    using far_angle_bounds(1) pi_gt_zero by linarith
  then show ?thesis
    by simp
qed

lemma cosElbow_notNaN: "\<not> isNaN d \<Longrightarrow> \<not> isNaN (cosElbow d)"
  by (cases d)
     (auto simp: cosElbow_def maxReach_val upperArmLen_def lowerArmLen_def sq_def
        minus_number_def)

lemma clamp_unit:
  "\<not> isNaN c \<Longrightarrow>
   ge (Math_max (Num (- 1)) (Math_min (Num 1) c)) (Num (- 1)) \<and>
   ge (Num 1) (Math_max (Num (- 1)) (Math_min (Num 1) c))"
  by (cases c) auto

lemma acos_unit:
  "ge c (Num (- 1)) \<Longrightarrow> ge (Num 1) c \<Longrightarrow>
   ge (Math_acos c) (Num 0) \<and> ge (Num pi) (Math_acos c)"
  by (cases c) (auto simp: arccos_lbound arccos_ubound)

subsection \<open>What each stage writes\<close>

lemma leaning_keeps:
  "bodyTargetX (leaning f dt s) = bodyTargetX s"
  "groupPosition (leaning f dt s) = groupPosition s"
  "currentHandTarget (leaning f dt s) = currentHandTarget s"
  "foreArmRotation (leaning f dt s) = foreArmRotation s"
  by (simp_all add: leaning_def Let_def split: option.splits)

lemma armIK_fields:
  "bodyTargetX (armIK f dt s) = bodyTargetX s"
  "groupPosition (armIK f dt s) = groupPosition s"
  "currentHandTarget (armIK f dt s) =
     lerpV (currentHandTarget s) (activePos f (groupPosition s)) (dt * handLerpSpeed (state f))"
  "foreArmRotation (armIK f dt s) =
     Vector3 (elbowAngle (shoulderDist f s (currentHandTarget (armIK f dt s)))) (Num 0) (Num 0)"
  by (simp_all add: armIK_def Let_def)

lemma headTracking_keeps:
  "bodyTargetX (headTracking f dt s) = bodyTargetX s"
  "groupPosition (headTracking f dt s) = groupPosition s"
  "currentHandTarget (headTracking f dt s) = currentHandTarget s"
  by (simp_all add: headTracking_def Let_def)

lemma locomotion_fields:
  "bodyTargetX (locomotion f dt s) = clampStage (stepTarget f (bodyTargetX s))"
  "currentHandTarget (locomotion f dt s) = currentHandTarget s"
  by (simp_all add: locomotion_def Let_def)

lemma useFrame_bodyTargetX:
  "bodyTargetX (useFrame f s) =
     (if refsAttached f then clampStage (stepTarget f (bodyTargetX s)) else bodyTargetX s)"
  by (simp add: useFrame_def Let_def frameBody_def leaning_keeps armIK_fields(1)
      headTracking_keeps locomotion_fields)

lemma useFrame_hand:
  "refsAttached f \<Longrightarrow>
   currentHandTarget (useFrame f s) =
     lerpV (currentHandTarget s) (activePos f (groupPosition (useFrame f s)))
       (Math_min (delta f) (Num 0.05) * handLerpSpeed (state f))"
  by (simp add: useFrame_def Let_def frameBody_def leaning_keeps armIK_fields(1-3)
      headTracking_keeps locomotion_fields)

lemma useFrame_foreArm:
  "refsAttached f \<Longrightarrow>
   foreArmRotation (useFrame f s) =
     Vector3 (elbowAngle (shoulderDist f (beforeIK f s) (currentHandTarget (useFrame f s))))
       (Num 0) (Num 0)"
  by (simp add: useFrame_def beforeIK_def Let_def frameBody_def leaning_keeps armIK_fields(4))

lemma shoulderDist_notNaN:
  "finiteV hand \<Longrightarrow> definedV (shoulderPos f s) \<Longrightarrow> \<not> isNaN (shoulderDist f s hand)"
  by (simp add: shoulderDist_def lengthV_defined subVectors_defined)

lemma beforeIK_spineRotation: "spineRotation (beforeIK f s) = spineRotation s"
  by (simp add: beforeIK_def Let_def headTracking_def locomotion_def)

lemma useFrame_groupPosition:
  "refsAttached f \<Longrightarrow>
   groupPosition (useFrame f s) =
     Vector3
       (lerp (vx (bodyPosition s)) (clampStage (stepTarget f (bodyTargetX s)))
          (Math_min (delta f) (Num 0.05) * (if state f = WRITING then Num 4 else Num 2)))
       (vy (groupPosition s)) (vz (groupPosition s))"
  by (simp add: useFrame_def Let_def frameBody_def leaning_keeps armIK_fields(2)
      headTracking_keeps locomotion_def)

subsection \<open>No stage reads the raw frame delta\<close>

lemma stepTarget_delta: "stepTarget (f\<lparr>delta := d\<rparr>) b = stepTarget f b"
  by (simp add: stepTarget_def cong: if_cong option.case_cong)

lemma activePos_delta: "activePos (f\<lparr>delta := d\<rparr>) r = activePos f r"
  by (simp add: activePos_def cong: if_cong option.case_cong)

lemma shoulderDist_delta: "shoulderDist (f\<lparr>delta := d\<rparr>) s h = shoulderDist f s h"
  by (simp add: shoulderDist_def shoulderPos_def)

lemma focusPoint_delta: "focusPoint (f\<lparr>delta := d\<rparr>) = focusPoint f"
  by (simp add: focusPoint_def cong: if_cong option.case_cong)

lemma locomotion_delta: "locomotion (f\<lparr>delta := d\<rparr>) dt s = locomotion f dt s"
  by (simp add: locomotion_def stepTarget_delta)

lemma headTracking_delta: "headTracking (f\<lparr>delta := d\<rparr>) dt s = headTracking f dt s"
  by (simp add: headTracking_def cong: if_cong option.case_cong)

lemma armIK_delta: "armIK (f\<lparr>delta := d\<rparr>) dt s = armIK f dt s"
  by (simp add: armIK_def activePos_delta shoulderDist_delta)

lemma leaning_delta: "leaning (f\<lparr>delta := d\<rparr>) dt s = leaning f dt s"
  by (simp add: leaning_def focusPoint_delta shoulderDist_delta cong: if_cong option.case_cong)

lemma frameBody_delta: "frameBody (f\<lparr>delta := d\<rparr>) dt s = frameBody f dt s"
  by (simp add: frameBody_def locomotion_delta headTracking_delta armIK_delta leaning_delta)

subsection \<open>The example frames\<close>

lemma exampleFrame_simps [simp]:
  "refsAttached (exampleFrame st tp la d) = True"
  "time (exampleFrame st tp la d) = Num 0"
  "delta (exampleFrame st tp la d) = d"
  "targetPosition (exampleFrame st tp la d) = tp"
  "state (exampleFrame st tp la d) = st"
  "lookAtTarget (exampleFrame st tp la d) = la"
  "spineLocalToWorld (exampleFrame st tp la d) = mountedLocalToWorld"
  "groupWorldToLocal (exampleFrame st tp la d) = mountedWorldToLocal"
  by (simp_all add: exampleFrame_def)

text \<open>With the spine unrotated the shoulder sits at its offset above the root.\<close>

lemma mounted_unrotated:
  "mountedLocalToWorld (Vector3 (Num x) (Num y) (Num z)) (Num h)
     (Vector3 (Num 0) (Num 0) (Num 0)) (Vector3 (Num a) (Num b) (Num c))
   = Vector3 (Num (a + x)) (Num (b + (h + y))) (Num (c + z))"
  by (simp add: mountedLocalToWorld_def Let_def minus_number_def)

text \<open>With a NaN yaw no coordinate of the shoulder is a number.\<close>

lemma mounted_NaN_yaw:
  "mountedLocalToWorld rootPos h (Vector3 (Num 0) NaN (Num 0)) v = Vector3 NaN NaN NaN"
  by (simp add: mountedLocalToWorld_def Let_def minus_number_def)

text \<open>
  Grabbing toward \<open>(3, 1.5, 0)\<close> for a frame of 0.05 s from the initial state: the body
  target steps to 2.6 and the root moves to 0.26, so the shoulder is at
  \<open>(0.54, 1.5, 0)\<close>; the smoothing factor is 1 and the hand lands on the target,
  2.46 from the shoulder.
\<close>

lemma example_far_hand:
  "currentHandTarget
     (useFrame (exampleFrame GRABBING (Some (Vector3 (Num 3) (Num 1.5) (Num 0))) None (Num 0.05))
        initial)
   = Vector3 (Num 3) (Num 1.5) (Num 0)"
  by (simp add: useFrame_hand activePos_def handLerpSpeed_def lerpV_def initial_def
      minus_number_def)

lemma example_far_shoulder:
  "shoulderPos (exampleFrame GRABBING (Some (Vector3 (Num 3) (Num 1.5) (Num 0))) None (Num 0.05))
     (beforeIK (exampleFrame GRABBING (Some (Vector3 (Num 3) (Num 1.5) (Num 0))) None (Num 0.05))
        initial)
   = Vector3 (Num 0.54) (Num 1.5) (Num 0)"
  by (simp add: shoulderPos_def beforeIK_def Let_def headTracking_def locomotion_def
      stepTarget_def clampStage_def lerp_def initial_def minus_number_def
      shoulderOffsetLocal_def mounted_unrotated)

lemma example_far_dist:
  "shoulderDist (exampleFrame GRABBING (Some (Vector3 (Num 3) (Num 1.5) (Num 0))) None (Num 0.05))
     (beforeIK (exampleFrame GRABBING (Some (Vector3 (Num 3) (Num 1.5) (Num 0))) None (Num 0.05))
        initial)
     (currentHandTarget
        (useFrame (exampleFrame GRABBING (Some (Vector3 (Num 3) (Num 1.5) (Num 0))) None (Num 0.05))
           initial))
   = Num 2.46"
  unfolding example_far_hand shoulderDist_def example_far_shoulder
  by (simp add: subVectors_def minus_number_def lengthV_x)

lemma example_far_ge:
  "ge (shoulderDist (exampleFrame GRABBING (Some (Vector3 (Num 3) (Num 1.5) (Num 0))) None (Num 0.05))
         (beforeIK (exampleFrame GRABBING (Some (Vector3 (Num 3) (Num 1.5) (Num 0))) None (Num 0.05))
            initial)
         (currentHandTarget
            (useFrame (exampleFrame GRABBING (Some (Vector3 (Num 3) (Num 1.5) (Num 0))) None (Num 0.05))
               initial)))
      maxReach"
  unfolding example_far_dist by (simp add: maxReach_val)

text \<open>
  Thinking with a hand target whose x is NaN, from the initial state: the arm is sent to
  the think pose, so the hand stays finite, while the yaw written to the spine is NaN.
\<close>

lemma example_NaN_yaw_frame:
  "bodyTargetX
     (useFrame (exampleFrame THINKING (Some (Vector3 NaN (Num 1.8) (Num 0.2))) None (Num 0.05))
        initial) = Num 0"
  "bodyPosition
     (useFrame (exampleFrame THINKING (Some (Vector3 NaN (Num 1.8) (Num 0.2))) None (Num 0.05))
        initial) = Vector3 (Num 0) (Num 0) (Num 0)"
  "groupPosition
     (useFrame (exampleFrame THINKING (Some (Vector3 NaN (Num 1.8) (Num 0.2))) None (Num 0.05))
        initial) = Vector3 (Num 0) (Num 0) (Num 0)"
  "currentHandTarget
     (useFrame (exampleFrame THINKING (Some (Vector3 NaN (Num 1.8) (Num 0.2))) None (Num 0.05))
        initial) = Vector3 (Num 0.745) (Num 1.53) (Num 0.105)"
  "spineRotation
     (useFrame (exampleFrame THINKING (Some (Vector3 NaN (Num 1.8) (Num 0.2))) None (Num 0.05))
        initial) = Vector3 (Num 0) NaN (Num 0)"
  by (simp_all add: useFrame_def frameBody_def Let_def leaning_def focusPoint_def armIK_def
      headTracking_def locomotion_def stepTarget_def clampStage_def lerp_def lerpV_def
      activePos_def addV_def handLerpSpeed_def initial_def minus_number_def
      mountedWorldToLocal_def subVectors_def)

section \<open>The claims\<close>

subsection \<open>Elbow bend\<close>

text \<open>
  C1. The claim (at a distance of at least \<open>maxReach\<close> the elbow bend is 0, the straight
  arm) fails in the code. Grabbing toward \<open>(3, 1.5, 0)\<close> puts the hand 2.46 from the
  shoulder, beyond \<open>maxReach\<close>, and the callback writes \<open>arccos (- 10211 / 10500)\<close>, about
  2.906 and at least \<open>\<pi>/2\<close>, to the forearm's rotation: the interior angle of the law of
  cosines, where the rotation of the forearm group (0 for the straight arm) needs its
  supplement. The forearm folds back at full reach and is straight when the hand target
  is at the shoulder.
\<close>

theorem full_reach_folds_forearm:
  "ge (shoulderDist (exampleFrame GRABBING (Some (Vector3 (Num 3) (Num 1.5) (Num 0))) None (Num 0.05)) (beforeIK (exampleFrame GRABBING (Some (Vector3 (Num 3) (Num 1.5) (Num 0))) None (Num 0.05)) initial) (currentHandTarget (useFrame (exampleFrame GRABBING (Some (Vector3 (Num 3) (Num 1.5) (Num 0))) None (Num 0.05)) initial)))
      maxReach
   \<and> vx (foreArmRotation (useFrame (exampleFrame GRABBING (Some (Vector3 (Num 3) (Num 1.5) (Num 0))) None (Num 0.05)) initial)) = Num (arccos (- 10211 / 10500))
   \<and> pi / 2 \<le> arccos (- 10211 / 10500)
   \<and> elbowAngle (Num 0) = Num 0"
proof -
  let ?f = "(exampleFrame GRABBING (Some (Vector3 (Num 3) (Num 1.5) (Num 0))) None (Num 0.05))"
  have a: "refsAttached ?f"
    by simp
  have "vx (foreArmRotation (useFrame ?f initial))
          = elbowAngle (shoulderDist ?f (beforeIK ?f initial) (currentHandTarget (useFrame ?f initial)))"
    by (simp only: useFrame_foreArm[OF a] Vector3.sel)
  also have "\<dots> = Num (arccos (- 10211 / 10500))"
    by (rule elbow_far[OF example_far_ge])
  finally have e: "vx (foreArmRotation (useFrame ?f initial)) = Num (arccos (- 10211 / 10500))" .
  have z: "elbowAngle (Num 0) = Num 0"
    by (simp add: elbowAngle_def cosElbow_def maxReach_val upperArmLen_def lowerArmLen_def
        sq_def minus_number_def)
  from example_far_ge e far_angle_bounds(1) z show ?thesis
    by blast
qed

text \<open>
  C2, as amended. In every frame update in which the smoothed hand target is finite and
  no coordinate of the shoulder's world position is NaN, the argument of \<open>Math.acos\<close> has
  been clamped into \<open>[-1, 1]\<close>, and the elbow angle written to the forearm lies in
  \<open>[0, \<pi>]\<close>.
\<close>

theorem elbow_angle_in_range:
  assumes "refsAttached f"
    and "finiteV (currentHandTarget (useFrame f s))"
    and "definedV (shoulderPos f (beforeIK f s))"
  shows "ge (Math_max (Num (- 1))
              (Math_min (Num 1)
                 (cosElbow (shoulderDist f (beforeIK f s) (currentHandTarget (useFrame f s))))))
           (Num (- 1))
     \<and> ge (Num 1)
          (Math_max (Num (- 1))
             (Math_min (Num 1)
                (cosElbow (shoulderDist f (beforeIK f s) (currentHandTarget (useFrame f s))))))
     \<and> vx (foreArmRotation (useFrame f s))
         = Math_acos
             (Math_max (Num (- 1))
                (Math_min (Num 1)
                   (cosElbow (shoulderDist f (beforeIK f s) (currentHandTarget (useFrame f s))))))
     \<and> ge (vx (foreArmRotation (useFrame f s))) (Num 0)
     \<and> ge (Num pi) (vx (foreArmRotation (useFrame f s)))"
proof -
  let ?d = "shoulderDist f (beforeIK f s) (currentHandTarget (useFrame f s))"
  let ?c = "Math_max (Num (- 1)) (Math_min (Num 1) (cosElbow ?d))"
  have "\<not> isNaN ?d"
    using assms(2,3) by (rule shoulderDist_notNaN)
  then have n: "\<not> isNaN (cosElbow ?d)"
    by (rule cosElbow_notNaN)
  have c: "ge ?c (Num (- 1))" "ge (Num 1) ?c"
    using clamp_unit[OF n] by simp_all
  have e: "vx (foreArmRotation (useFrame f s)) = Math_acos ?c"
    using assms(1) by (simp add: useFrame_foreArm elbowAngle_def)
  have "ge (Math_acos ?c) (Num 0)" "ge (Num pi) (Math_acos ?c)"
    using acos_unit[OF c] by simp_all
  with c e show ?thesis
    by simp
qed

theorem elbow_angle_in_range_witness:
  "refsAttached (exampleFrame GRABBING (Some (Vector3 (Num 3) (Num 1.5) (Num 0))) None (Num 0.05))
   \<and> finiteV (currentHandTarget (useFrame (exampleFrame GRABBING (Some (Vector3 (Num 3) (Num 1.5) (Num 0))) None (Num 0.05)) initial))
   \<and> definedV (shoulderPos (exampleFrame GRABBING (Some (Vector3 (Num 3) (Num 1.5) (Num 0))) None (Num 0.05)) (beforeIK (exampleFrame GRABBING (Some (Vector3 (Num 3) (Num 1.5) (Num 0))) None (Num 0.05)) initial))
   \<and> ge (vx (foreArmRotation (useFrame (exampleFrame GRABBING (Some (Vector3 (Num 3) (Num 1.5) (Num 0))) None (Num 0.05)) initial))) (Num 0)
   \<and> ge (Num pi) (vx (foreArmRotation (useFrame (exampleFrame GRABBING (Some (Vector3 (Num 3) (Num 1.5) (Num 0))) None (Num 0.05)) initial)))"
proof -
  let ?f = "(exampleFrame GRABBING (Some (Vector3 (Num 3) (Num 1.5) (Num 0))) None (Num 0.05))"
  have a: "refsAttached ?f"
    by simp
  have b: "finiteV (currentHandTarget (useFrame ?f initial))"
    unfolding example_far_hand by (simp add: finiteV_def)
  have c: "definedV (shoulderPos ?f (beforeIK ?f initial))"
    unfolding example_far_shoulder by (simp add: definedV_def)
  from elbow_angle_in_range[OF a b c] a b c show ?thesis
    by blast
qed

text \<open>
  C2 as stated fails: a finite smoothed hand target does not make the angle a number.
  A thinking frame whose hand target has a NaN x writes a NaN yaw to the spine and
  leaves the hand finite; in the next frame (idle, no targets) the shoulder's world
  position is NaN, the clamp passes NaN on to \<open>Math.acos\<close>, and the elbow angle is NaN.
\<close>

theorem elbow_angle_NaN_after_NaN_yaw:
  "finiteV (currentHandTarget
      (run [exampleFrame THINKING (Some (Vector3 NaN (Num 1.8) (Num 0.2))) None (Num 0.05),
            exampleFrame IDLE None None (Num 0.05)] initial))
   \<and> vx (foreArmRotation
      (run [exampleFrame THINKING (Some (Vector3 NaN (Num 1.8) (Num 0.2))) None (Num 0.05),
            exampleFrame IDLE None None (Num 0.05)] initial)) = NaN
   \<and> Math_max (Num (- 1)) (Math_min (Num 1) NaN) = NaN"
proof -
  let ?f1 = "exampleFrame THINKING (Some (Vector3 NaN (Num 1.8) (Num 0.2))) None (Num 0.05)"
  let ?f2 = "exampleFrame IDLE None None (Num 0.05)"
  let ?s1 = "useFrame ?f1 initial"
  have a: "refsAttached ?f2"
    by simp
  have sh: "shoulderPos ?f2 (beforeIK ?f2 ?s1) = Vector3 NaN NaN NaN"
    unfolding shoulderPos_def beforeIK_spineRotation example_NaN_yaw_frame(5)
    by (simp add: mounted_NaN_yaw)
  have d: "shoulderDist ?f2 (beforeIK ?f2 ?s1) h = NaN" for h
    unfolding shoulderDist_def sh by (simp add: subVectors_def minus_number_def lengthV_def)
  have e: "vx (foreArmRotation (useFrame ?f2 ?s1)) = NaN"
    unfolding useFrame_foreArm[OF a] d
    by (simp add: elbowAngle_def cosElbow_def sq_def minus_number_def)
  have g: "groupPosition (useFrame ?f2 ?s1) = Vector3 (Num 0) (Num 0) (Num 0)"
    unfolding useFrame_groupPosition[OF a] example_NaN_yaw_frame
    by (simp add: stepTarget_def clampStage_def lerp_def minus_number_def)
  have "currentHandTarget (useFrame ?f2 ?s1)
      = Vector3 (Num 0.6265) (Num 1.341) (Num 0.1635)"
    unfolding useFrame_hand[OF a] g example_NaN_yaw_frame(4)
    by (simp add: activePos_def addV_def handLerpSpeed_def lerpV_def minus_number_def)
  then have h: "finiteV (currentHandTarget (useFrame ?f2 ?s1))"
    by (simp add: finiteV_def)
  from h e show ?thesis
    by simp
qed

subsection \<open>Smoothing\<close>

text \<open>
  C3. The claim (the distance between a smoothed quantity and its fixed target never
  grows from one update to the next, for every clamped \<open>dt \<le> 0.05\<close>) fails for the hand
  while writing: the factor is \<open>dt * 50\<close>, which is 2.5 at \<open>dt = 0.05\<close>. From the initial
  hand \<open>(1, 1.5, 0)\<close>, one frame of 0.05 s toward the fixed target \<open>(2, 1.5, -1.8)\<close> puts
  the hand at \<open>(3.5, 1.5, -4.5)\<close>, farther from the target than before.
\<close>

theorem writing_hand_overshoots:
  "currentHandTarget
     (useFrame (exampleFrame WRITING (Some (Vector3 (Num 2) (Num 1.5) (Num (- 1.8)))) None (Num 0.05))
        initial)
   = Vector3 (Num 3.5) (Num 1.5) (Num (- 4.5))
   \<and> gt (distanceTo (Vector3 (Num 3.5) (Num 1.5) (Num (- 4.5)))
           (Vector3 (Num 2) (Num 1.5) (Num (- 1.8))))
        (distanceTo (currentHandTarget initial) (Vector3 (Num 2) (Num 1.5) (Num (- 1.8))))"
  by (simp add: useFrame_hand activePos_def handLerpSpeed_def lerpV_def initial_def
      minus_number_def distanceTo_def subVectors_def lengthV_def)

subsection \<open>Body placement\<close>

text \<open>
  C4, as amended. In the \<open>WRITING\<close> state, with \<open>bodyTargetX = b\<close> within the stage
  bounds and a hand target whose x keeps \<open>|(x - 0.4) - b|\<close> at or below 0.8 by more than
  double rounding can change it (\<open>|(x - 0.4) - b| \<le> 0.8 - 10\<^sup>-\<^sup>9\<close>), \<open>bodyTargetX\<close> is
  still \<open>b\<close> after any number of update calls fed that hand target (whatever the gaze
  targets and frame deltas).
\<close>

theorem deadzone_holds_while_writing:
  assumes "\<forall>f \<in> set fs. state f = WRITING \<and> targetPosition f = Some p"
    and "inStage (bodyTargetX s)"
    and "ge (Num (0.8 - deadzoneMargin)) (Math_abs (vx p - Num 0.4 - bodyTargetX s))"
  shows "bodyTargetX (run fs s) = bodyTargetX s"
  using assms
proof (induction fs arbitrary: s)
  case Nil
  show ?case
    by simp
next
  case (Cons f fs)
  have "\<not> gt (Math_abs (vx p - Num 0.4 - bodyTargetX s)) (Num 0.8)"
    using Cons.prems(3) deadzoneMargin_nonneg by (rule ge_margin_not_gt)
  then have step: "bodyTargetX (useFrame f s) = bodyTargetX s"
    using Cons.prems(1,2) by (simp add: useFrame_bodyTargetX stepTarget_def clampStage_id)
  have "bodyTargetX (run fs (useFrame f s)) = bodyTargetX (useFrame f s)"
    using Cons.prems step by (intro Cons.IH) auto
  with step show ?case
    by simp
qed

theorem deadzone_holds_while_writing_witness:
  "state (exampleFrame WRITING (Some (Vector3 (Num 1) (Num 1.5) (Num (- 1.8)))) None (Num 0.05)) = WRITING
   \<and> state (exampleFrame WRITING (Some (Vector3 (Num 1) (Num 1.5) (Num (- 1.8))))
         (Some (Vector3 (Num 1) (Num 1.5) (Num (- 2)))) (Num 0.01)) = WRITING
   \<and> inStage (bodyTargetX initial)
   \<and> ge (Num (0.8 - deadzoneMargin)) (Math_abs (Num 1 - Num 0.4 - bodyTargetX initial))
   \<and> bodyTargetX
       (run [exampleFrame WRITING (Some (Vector3 (Num 1) (Num 1.5) (Num (- 1.8)))) None (Num 0.05),
             exampleFrame WRITING (Some (Vector3 (Num 1) (Num 1.5) (Num (- 1.8))))
               (Some (Vector3 (Num 1) (Num 1.5) (Num (- 2)))) (Num 0.01)]
          initial)
     = bodyTargetX initial"
proof -
  let ?p = "Vector3 (Num 1) (Num 1.5) (Num (- 1.8))"
  let ?f1 = "exampleFrame WRITING (Some ?p) None (Num 0.05)"
  let ?f2 = "exampleFrame WRITING (Some ?p) (Some (Vector3 (Num 1) (Num 1.5) (Num (- 2)))) (Num 0.01)"
  have a: "\<forall>f \<in> set [?f1, ?f2]. state f = WRITING \<and> targetPosition f = Some ?p"
    by simp
  have b: "inStage (bodyTargetX initial)"
    by (simp add: initial_def inStage_def)
  have c: "ge (Num (0.8 - deadzoneMargin)) (Math_abs (vx ?p - Num 0.4 - bodyTargetX initial))"
    by (simp add: initial_def minus_number_def deadzoneMargin_def)
  have c': "ge (Num (0.8 - deadzoneMargin)) (Math_abs (Num 1 - Num 0.4 - bodyTargetX initial))"
    using c by simp
  have s1: "state ?f1 = WRITING" and s2: "state ?f2 = WRITING"
    by simp_all
  from deadzone_holds_while_writing[OF a b c] s1 s2 b c' show ?thesis
    by blast
qed

text \<open>
  C4 as stated fails outside \<open>WRITING\<close>: grabbing toward \<open>(0, 1, 1.5)\<close> with
  \<open>bodyTargetX = 0\<close> is inside the deadzone, and one update moves \<open>bodyTargetX\<close> to -0.4.
\<close>

theorem deadzone_ignored_when_grabbing:
  "ge (Num 0.8) (Math_abs (Num 0 - Num 0.4 - bodyTargetX initial))
   \<and> bodyTargetX
        (useFrame (exampleFrame GRABBING (Some (Vector3 (Num 0) (Num 1) (Num 1.5)))
                     (Some (Vector3 (Num 0) (Num 1) (Num 1.5))) (Num 0.05)) initial)
       = Num (- 0.4)
   \<and> bodyTargetX
        (useFrame (exampleFrame GRABBING (Some (Vector3 (Num 0) (Num 1) (Num 1.5)))
                     (Some (Vector3 (Num 0) (Num 1) (Num 1.5))) (Num 0.05)) initial)
       \<noteq> bodyTargetX initial"
  by (simp add: useFrame_bodyTargetX stepTarget_def clampStage_def initial_def minus_number_def)

text \<open>
  C5, as amended. In the \<open>WRITING\<close> or \<open>GRABBING\<close> state, with \<open>bodyTargetX = b\<close> within
  the stage bounds and a hand target whose x puts \<open>|(x - 0.4) - b|\<close> above 0.8 by more
  than double rounding can change it (\<open>|(x - 0.4) - b| > 0.8 + 10\<^sup>-\<^sup>9\<close>), a single update
  call sets \<open>bodyTargetX\<close> to \<open>x - 0.4\<close> clamped to the stage bounds \<open>[-3.2, 3.2]\<close>: to
  exactly \<open>x - 0.4\<close> when that lies within the bounds.
\<close>

theorem deadzone_trip_clamped:
  assumes "refsAttached f" "state f = WRITING \<or> state f = GRABBING"
    and "targetPosition f = Some p"
    and "inStage (bodyTargetX s)"
    and "gt (Math_abs (vx p - Num 0.4 - bodyTargetX s)) (Num (0.8 + deadzoneMargin))"
  shows "bodyTargetX (useFrame f s) = Math_max (Num (- 3.2)) (Math_min (Num 3.2) (vx p - Num 0.4))
     \<and> (inStage (vx p - Num 0.4) \<longrightarrow> bodyTargetX (useFrame f s) = vx p - Num 0.4)"
proof -
  have "gt (Math_abs (vx p - Num 0.4 - bodyTargetX s)) (Num 0.8)"
    using assms(5) deadzoneMargin_nonneg by (rule gt_margin_gt)
  then have "bodyTargetX (useFrame f s) = clampStage (vx p - Num 0.4)"
    using assms(1-3) by (auto simp: useFrame_bodyTargetX stepTarget_def)
  then show ?thesis
    by (simp add: clampStage_id) (simp add: clampStage_def)
qed

theorem deadzone_trip_clamped_witness:
  "refsAttached (exampleFrame WRITING (Some (Vector3 (Num 2) (Num 1.5) (Num (- 1.8)))) None (Num 0.05))
   \<and> inStage (bodyTargetX initial)
   \<and> gt (Math_abs (Num 2 - Num 0.4 - bodyTargetX initial)) (Num (0.8 + deadzoneMargin))
   \<and> inStage (Num 2 - Num 0.4)
   \<and> bodyTargetX
        (useFrame (exampleFrame WRITING (Some (Vector3 (Num 2) (Num 1.5) (Num (- 1.8)))) None (Num 0.05))
           initial)
       = Num 2 - Num 0.4"
proof -
  let ?p = "Vector3 (Num 2) (Num 1.5) (Num (- 1.8))"
  let ?f = "exampleFrame WRITING (Some ?p) None (Num 0.05)"
  have a: "refsAttached ?f" and b: "state ?f = WRITING \<or> state ?f = GRABBING"
    and c: "targetPosition ?f = Some ?p"
    by simp_all
  have i: "inStage (bodyTargetX initial)"
    by (simp add: initial_def inStage_def)
  have d: "gt (Math_abs (vx ?p - Num 0.4 - bodyTargetX initial)) (Num (0.8 + deadzoneMargin))"
    by (simp add: initial_def minus_number_def deadzoneMargin_def)
  have e: "inStage (vx ?p - Num 0.4)"
    by (simp add: inStage_def minus_number_def)
  from deadzone_trip_clamped[OF a b c i d] e
  have "bodyTargetX (useFrame ?f initial) = vx ?p - Num 0.4"
    by blast
  with a i d e show ?thesis
    by simp
qed

text \<open>
  C5 as stated fails at the stage bound and outside the two states. Writing at
  \<open>x = 3.9\<close> with \<open>bodyTargetX = 0\<close> trips the deadzone (\<open>3.5 > 0.8\<close>), and the update
  leaves \<open>bodyTargetX\<close> at 3.2, not 3.5. Thinking with a hand target at \<open>x = 2\<close>
  (\<open>1.6 > 0.8\<close>) leaves \<open>bodyTargetX\<close> at 0, not 1.6.
\<close>

theorem deadzone_trip_beyond_stage:
  "gt (Math_abs (Num 3.9 - Num 0.4 - bodyTargetX initial)) (Num 0.8)
   \<and> bodyTargetX
        (useFrame (exampleFrame WRITING (Some (Vector3 (Num 3.9) (Num 1.5) (Num (- 1.8)))) None (Num 0.05))
           initial)
       = Num 3.2
   \<and> bodyTargetX
        (useFrame (exampleFrame WRITING (Some (Vector3 (Num 3.9) (Num 1.5) (Num (- 1.8)))) None (Num 0.05))
           initial)
       \<noteq> Num 3.9 - Num 0.4
   \<and> gt (Math_abs (Num 2 - Num 0.4 - bodyTargetX initial)) (Num 0.8)
   \<and> bodyTargetX
        (useFrame (exampleFrame THINKING (Some (Vector3 (Num 2) (Num 1.5) (Num (- 1.8)))) None (Num 0.05))
           initial)
       = Num 0
   \<and> bodyTargetX
        (useFrame (exampleFrame THINKING (Some (Vector3 (Num 2) (Num 1.5) (Num (- 1.8)))) None (Num 0.05))
           initial)
       \<noteq> Num 2 - Num 0.4"
  by (simp add: useFrame_bodyTargetX stepTarget_def clampStage_def initial_def minus_number_def)

text \<open>
  C6, as amended. Starting from the initial state (\<open>bodyTargetX = 0\<close>), for every
  sequence of frames whose hand and gaze targets have an x coordinate that is not NaN
  (infinite ones included), whatever the states and frame deltas, \<open>bodyTargetX\<close> lies
  within \<open>[-3.2, 3.2]\<close> after every update call.
\<close>

theorem bodyTargetX_in_stage:
  assumes "\<forall>f \<in> set fs. xDefined f"
  shows "inStage (bodyTargetX (run fs initial))"
proof -
  have "inStage (bodyTargetX s) \<Longrightarrow> inStage (bodyTargetX (run fs s))" for s
    using assms
  proof (induction fs arbitrary: s)
    case Nil
    then show ?case
      by simp
  next
    case (Cons f fs)
    have "inStage (bodyTargetX (useFrame f s))"
      using Cons.prems
      by (simp add: useFrame_bodyTargetX clampStage_inStage stepTarget_notNaN inStage_notNaN)
    then show ?case
      using Cons.prems by (simp add: Cons.IH)
  qed
  moreover have "inStage (bodyTargetX initial)"
    by (simp add: initial_def inStage_def)
  ultimately show ?thesis
    by blast
qed

theorem bodyTargetX_in_stage_witness:
  "xDefined (exampleFrame GRABBING (Some (Vector3 PosInfinity (Num 1) (Num 0))) None (Num 0.05))
   \<and> xDefined (exampleFrame IDLE None (Some (Vector3 (Num (- 20)) (Num 1) (Num 0))) (Num 0.05))
   \<and> inStage (bodyTargetX
        (run [exampleFrame GRABBING (Some (Vector3 PosInfinity (Num 1) (Num 0))) None (Num 0.05),
              exampleFrame IDLE None (Some (Vector3 (Num (- 20)) (Num 1) (Num 0))) (Num 0.05)]
           initial))"
proof -
  let ?f1 = "exampleFrame GRABBING (Some (Vector3 PosInfinity (Num 1) (Num 0))) None (Num 0.05)"
  let ?f2 = "exampleFrame IDLE None (Some (Vector3 (Num (- 20)) (Num 1) (Num 0))) (Num 0.05)"
  have a: "xDefined ?f1" and b: "xDefined ?f2"
    by (simp_all add: xDefined_def)
  then have "\<forall>f \<in> set [?f1, ?f2]. xDefined f"
    by simp
  from bodyTargetX_in_stage[OF this] a b show ?thesis
    by blast
qed

text \<open>
  C6 as stated fails on a NaN coordinate: grabbing toward a hand target whose x is NaN
  leaves \<open>bodyTargetX\<close> at NaN, which is not within the stage bounds.
\<close>

theorem bodyTargetX_NaN_escapes_stage:
  "bodyTargetX
     (run [exampleFrame GRABBING (Some (Vector3 NaN (Num 1) (Num 1.5))) None (Num 0.05)] initial)
     = NaN
   \<and> \<not> inStage (bodyTargetX
        (run [exampleFrame GRABBING (Some (Vector3 NaN (Num 1) (Num 1.5))) None (Num 0.05)]
           initial))"
  by (simp add: useFrame_bodyTargetX stepTarget_def clampStage_def inStage_def minus_number_def)

subsection \<open>Non-finite directives\<close>

text \<open>
  C7, as amended. The update has no finiteness check, and a non-finite coordinate of the
  directive is not rejected: when the x coordinate of the hand target is NaN, the update
  stores NaN in the x coordinate of the smoothed hand target in every state but
  \<open>THINKING\<close>, and in \<open>bodyTargetX\<close> in the \<open>GRABBING\<close> state.
\<close>

theorem NaN_target_propagates:
  assumes "refsAttached f" "targetPosition f = Some p" "vx p = NaN"
  shows "(state f \<noteq> THINKING \<longrightarrow> vx (currentHandTarget (useFrame f s)) = NaN)
     \<and> (state f = GRABBING \<longrightarrow> bodyTargetX (useFrame f s) = NaN)"
  using assms
  by (simp add: useFrame_hand useFrame_bodyTargetX activePos_def lerpV_def minus_number_def
      stepTarget_def clampStage_def)

theorem NaN_target_propagates_witness:
  "refsAttached (exampleFrame GRABBING (Some (Vector3 NaN (Num 1) (Num 1.5))) None (Num 0.05))
   \<and> vx (Vector3 NaN (Num 1) (Num 1.5)) = NaN
   \<and> vx (currentHandTarget
        (useFrame (exampleFrame GRABBING (Some (Vector3 NaN (Num 1) (Num 1.5))) None (Num 0.05))
           initial)) = NaN
   \<and> bodyTargetX
        (useFrame (exampleFrame GRABBING (Some (Vector3 NaN (Num 1) (Num 1.5))) None (Num 0.05))
           initial) = NaN"
proof -
  let ?p = "Vector3 NaN (Num 1) (Num 1.5)"
  let ?f = "exampleFrame GRABBING (Some ?p) None (Num 0.05)"
  have a: "refsAttached ?f" and b: "targetPosition ?f = Some ?p" and c: "vx ?p = NaN"
    by simp_all
  have d: "state ?f \<noteq> THINKING" and e: "state ?f = GRABBING"
    by simp_all
  from NaN_target_propagates[OF a b c, of initial] d e a c show ?thesis
    by blast
qed

text \<open>
  C7 as stated fails: a hand target with a NaN x coordinate does not leave the state as
  it was; after the update \<open>bodyTargetX\<close> is NaN where it was 0.
\<close>

theorem NaN_target_not_held:
  "\<not> isFinite (vx (Vector3 NaN (Num 1) (Num 1.5)))
   \<and> bodyTargetX initial = Num 0
   \<and> bodyTargetX
        (useFrame (exampleFrame GRABBING (Some (Vector3 NaN (Num 1) (Num 1.5))) None (Num 0.05))
           initial) = NaN
   \<and> useFrame (exampleFrame GRABBING (Some (Vector3 NaN (Num 1) (Num 1.5))) None (Num 0.05))
        initial \<noteq> initial"
proof -
  let ?f = "exampleFrame GRABBING (Some (Vector3 NaN (Num 1) (Num 1.5))) None (Num 0.05)"
  have a: "bodyTargetX (useFrame ?f initial) = NaN"
    by (simp add: useFrame_bodyTargetX stepTarget_def clampStage_def minus_number_def)
  have b: "bodyTargetX initial = Num 0"
    by (simp add: initial_def)
  have "useFrame ?f initial \<noteq> initial"
  proof
    assume "useFrame ?f initial = initial"
    then have "bodyTargetX (useFrame ?f initial) = bodyTargetX initial"
      by simp
    with a b show False
      by simp
  qed
  with a b show ?thesis
    by simp
qed

subsection \<open>Elapsed time\<close>

text \<open>
  C8. In every update call the elapsed time handed to all four stages is
  \<open>Math.min(delta, 0.05)\<close>; no stage reads the raw delta, so a frame of any delta has the
  effect of a frame of the clamped delta; and the clamped value never exceeds 0.05.
\<close>

theorem dt_clamped:
  "useFrame f s = (if refsAttached f then frameBody f (Math_min (delta f) (Num 0.05)) s else s)
   \<and> frameBody (f\<lparr>delta := d\<rparr>) dt s = frameBody f dt s
   \<and> useFrame (f\<lparr>delta := d\<rparr>) s = useFrame (f\<lparr>delta := Math_min d (Num 0.05)\<rparr>) s
   \<and> \<not> gt (Math_min (delta f) (Num 0.05)) (Num 0.05)"
  by (simp add: useFrame_def Math_min_idem frameBody_delta Math_min_not_gt del: Math_min.simps)

theorem dt_clamped_witness:
  "useFrame (exampleFrame WRITING None None (Num 2)) initial
     = frameBody (exampleFrame WRITING None None (Num 2)) (Num 0.05) initial
   \<and> \<not> gt (Math_min (Num 2) (Num 0.05)) (Num 0.05)"
  using dt_clamped[of "exampleFrame WRITING None None (Num 2)" initial]
  by simp

subsection \<open>Thinking\<close>

text \<open>
  C9. In the \<open>THINKING\<close> state, whatever hand target is supplied, \<open>bodyTargetX\<close> is set
  to 0 and the point the arm is sent to is the root position of this frame plus
  \<open>(0.15, 1.6, 0.35)\<close>: the smoothed hand target moves toward that point (at rate 6) and
  the supplied hand target plays no part in it.
\<close>

theorem thinking_overrides_hand_target:
  assumes "refsAttached f" "state f = THINKING" "targetPosition f = Some p"
  shows "bodyTargetX (useFrame f s) = Num 0
     \<and> activePos f (groupPosition (useFrame f s))
         = addV (groupPosition (useFrame f s)) (Vector3 (Num 0.15) (Num 1.6) (Num 0.35))
     \<and> currentHandTarget (useFrame f s)
         = lerpV (currentHandTarget s)
             (addV (groupPosition (useFrame f s)) (Vector3 (Num 0.15) (Num 1.6) (Num 0.35)))
             (Math_min (delta f) (Num 0.05) * Num 6)"
  using assms
  by (simp add: useFrame_bodyTargetX useFrame_hand stepTarget_def clampStage_zero
      activePos_def handLerpSpeed_def)

theorem thinking_overrides_hand_target_witness:
  "refsAttached (exampleFrame THINKING (Some (Vector3 (Num 0.5) (Num 1.8) (Num 0.2))) None (Num 0.05))
   \<and> state (exampleFrame THINKING (Some (Vector3 (Num 0.5) (Num 1.8) (Num 0.2))) None (Num 0.05))
       = THINKING
   \<and> bodyTargetX
        (useFrame (exampleFrame THINKING (Some (Vector3 (Num 0.5) (Num 1.8) (Num 0.2))) None (Num 0.05))
           initial) = Num 0"
proof -
  let ?p = "Vector3 (Num 0.5) (Num 1.8) (Num 0.2)"
  let ?f = "exampleFrame THINKING (Some ?p) None (Num 0.05)"
  have a: "refsAttached ?f" and b: "state ?f = THINKING" and c: "targetPosition ?f = Some ?p"
    by simp_all
  from thinking_overrides_hand_target[OF a b c, of initial] a b show ?thesis
    by blast
qed

subsection \<open>The chalk\<close>

text \<open>
  C10. The chalk in the right hand is visible exactly in the \<open>WRITING\<close> state: it is
  hidden in \<open>IDLE\<close>, \<open>THINKING\<close>, \<open>GRABBING\<close> and \<open>WALKING\<close>.
\<close>

theorem chalk_only_while_writing:
  "chalkVisible st = (st = WRITING)
   \<and> chalkVisible WRITING \<and> \<not> chalkVisible IDLE \<and> \<not> chalkVisible THINKING
   \<and> \<not> chalkVisible GRABBING \<and> \<not> chalkVisible WALKING"
  by (simp add: chalkVisible_def)

end
